theory Spec2Isabelle
  imports Complex_Main "HOL-Library.Word" "HOL-Library.Signed_Division"
begin

unbundle bit_operations_syntax

section \<open>Argus firmware (argus.ino): data model\<close>

text \<open>
  The firmware runs on an Arduino Uno (ATmega328P): \<open>byte\<close> is 8 bits, \<open>short\<close> and
  \<open>int\<close> are 16 bits, \<open>long\<close> is 32 bits.
\<close>

type_synonym byte = "8 word"
type_synonym short = "16 word"
type_synonym pin = nat

subsection \<open>Pin definitions (argus.ino lines 18-31)\<close>

definition MOTOR_ENA :: pin where "MOTOR_ENA = 5"
definition MOTOR_IN1 :: pin where "MOTOR_IN1 = 4"
definition MOTOR_IN2 :: pin where "MOTOR_IN2 = 3"
definition MOTOR_ENB :: pin where "MOTOR_ENB = 6"
definition MOTOR_IN3 :: pin where "MOTOR_IN3 = 7"
definition MOTOR_IN4 :: pin where "MOTOR_IN4 = 8"
definition TRIG_PIN :: pin where "TRIG_PIN = 9"
definition ECHO_PIN :: pin where "ECHO_PIN = 10"

text \<open>Platform constants of the Arduino Uno core, which is not part of the repository:
  analog pin \<open>A0\<close> is pin 14, \<open>MISO\<close> is pin 12.\<close>

definition A0 :: pin where "A0 = 14"
definition BATT_PIN :: pin where "BATT_PIN = A0"
definition MISO :: pin where "MISO = 12"


subsection \<open>SPI commands (lines 34-39)\<close>

definition CMD_STOP :: byte where "CMD_STOP = 0x00"
definition CMD_FORWARD :: byte where "CMD_FORWARD = 0x01"
definition CMD_REVERSE :: byte where "CMD_REVERSE = 0x02"
definition CMD_TURN_LEFT :: byte where "CMD_TURN_LEFT = 0x03"
definition CMD_TURN_RIGHT :: byte where "CMD_TURN_RIGHT = 0x04"
definition CMD_GET_SENSOR_DATA :: byte where "CMD_GET_SENSOR_DATA = 0x10"


text \<open>The five codes that \<open>executeMotorCommand\<close> has a case for.\<close>

definition valid_cmds :: "byte set" where
  "valid_cmds = {CMD_STOP, CMD_FORWARD, CMD_REVERSE, CMD_TURN_LEFT, CMD_TURN_RIGHT}"

subsection \<open>Output pins and SPI control register\<close>

text \<open>
  The output side of the board as a store indexed by pin number: the level last written by
  \<open>digitalWrite\<close>, the duty last written by \<open>analogWrite\<close> (an \<open>int\<close> argument in the Arduino
  API), the mode set by \<open>pinMode\<close>, and the SPI control register.
\<close>

datatype pin_mode = INPUT | OUTPUT

definition LOW :: bool where "LOW = False"
definition HIGH :: bool where "HIGH = True"

record hw =
  level :: "pin \<Rightarrow> bool"
  duty :: "pin \<Rightarrow> int"
  pmode :: "pin \<Rightarrow> pin_mode"
  SPCR :: byte

definition pinMode :: "pin \<Rightarrow> pin_mode \<Rightarrow> hw \<Rightarrow> hw" where
  "pinMode p m h = h\<lparr>pmode := (pmode h)(p := m)\<rparr>"

definition digitalWrite :: "pin \<Rightarrow> bool \<Rightarrow> hw \<Rightarrow> hw" where
  "digitalWrite p v h = h\<lparr>level := (level h)(p := v)\<rparr>"

definition analogWrite :: "pin \<Rightarrow> int \<Rightarrow> hw \<Rightarrow> hw" where
  "analogWrite p v h = h\<lparr>duty := (duty h)(p := v)\<rparr>"


subsection \<open>Global variables (lines 42-52)\<close>

record SensorData =
  distance :: short
  battery_level :: byte

record firmware =
  command :: byte
  sensorData :: SensorData
  io :: hw

section \<open>Motor helper functions (lines 148-212)\<close>

definition goForward :: "hw \<Rightarrow> hw" where
  "goForward h =
     analogWrite MOTOR_ENB 200 (analogWrite MOTOR_ENA 200
       (digitalWrite MOTOR_IN4 LOW (digitalWrite MOTOR_IN3 HIGH
         (digitalWrite MOTOR_IN2 LOW (digitalWrite MOTOR_IN1 HIGH h)))))"

definition goReverse :: "hw \<Rightarrow> hw" where
  "goReverse h =
     analogWrite MOTOR_ENB 150 (analogWrite MOTOR_ENA 150
       (digitalWrite MOTOR_IN4 HIGH (digitalWrite MOTOR_IN3 LOW
         (digitalWrite MOTOR_IN2 HIGH (digitalWrite MOTOR_IN1 LOW h)))))"

definition turnLeft :: "hw \<Rightarrow> hw" where
  "turnLeft h =
     analogWrite MOTOR_ENB 180 (analogWrite MOTOR_ENA 180
       (digitalWrite MOTOR_IN4 LOW (digitalWrite MOTOR_IN3 HIGH
         (digitalWrite MOTOR_IN2 HIGH (digitalWrite MOTOR_IN1 LOW h)))))"

definition turnRight :: "hw \<Rightarrow> hw" where
  "turnRight h =
     analogWrite MOTOR_ENB 180 (analogWrite MOTOR_ENA 180
       (digitalWrite MOTOR_IN4 HIGH (digitalWrite MOTOR_IN3 LOW
         (digitalWrite MOTOR_IN2 LOW (digitalWrite MOTOR_IN1 HIGH h)))))"

definition stopMotors :: "hw \<Rightarrow> hw" where
  "stopMotors h =
     analogWrite MOTOR_ENB 0 (analogWrite MOTOR_ENA 0
       (digitalWrite MOTOR_IN4 LOW (digitalWrite MOTOR_IN3 LOW
         (digitalWrite MOTOR_IN2 LOW (digitalWrite MOTOR_IN1 LOW h)))))"


text \<open>The \<open>switch\<close> of lines 149-166; the case labels are pairwise different, so the order
  of the tests does not matter. A code without a case falls through the switch.\<close>

definition executeMotorCommand :: "byte \<Rightarrow> hw \<Rightarrow> hw" where
  "executeMotorCommand cmd h =
     (if cmd = CMD_FORWARD then goForward h
      else if cmd = CMD_REVERSE then goReverse h
      else if cmd = CMD_TURN_LEFT then turnLeft h
      else if cmd = CMD_TURN_RIGHT then turnRight h
      else if cmd = CMD_STOP then stopMotors h
      else h)"

section \<open>Sensor helper functions (lines 117-144)\<close>

text \<open>
  C's conversion of a floating-point value to an integer type discards the fraction.
\<close>

definition c_trunc :: "real \<Rightarrow> int" where
  "c_trunc x = (if 0 \<le> x then \<lfloor>x\<rfloor> else \<lceil>x\<rceil>)"

text \<open>
  \<open>readUltrasonic\<close>: the trigger pulse, then \<open>pulseIn\<close>, whose result (microseconds, 0 when
  no echo arrived within the 25 ms timeout) is the parameter \<open>duration\<close>. The source computes
  \<open>duration * 0.0343 / 2.0\<close> in floating point; here the product is taken in the reals, which
  agrees with the floating-point value wherever that value is exact, in particular at 0.
\<close>

definition readUltrasonic :: "int \<Rightarrow> hw \<Rightarrow> short \<times> hw" where
  "readUltrasonic duration h =
     (let h1 = digitalWrite TRIG_PIN LOW h;
          h2 = digitalWrite TRIG_PIN HIGH h1;
          h3 = digitalWrite TRIG_PIN LOW h2
      in (word_of_int (c_trunc (real_of_int duration * 0.0343 / 2.0)), h3))"

text \<open>
  \<open>map\<close> and \<open>constrain\<close> of the Arduino core (not part of the repository):
  \<open>map(x, in_min, in_max, out_min, out_max)\<close> returns
  \<open>(x - in_min) * (out_max - out_min) / (in_max - in_min) + out_min\<close> in \<open>long\<close> arithmetic,
  whose division truncates towards zero; \<open>constrain(amt, low, high)\<close> is
  \<open>amt < low ? low : (amt > high ? high : amt)\<close>.
\<close>

definition map_long :: "int \<Rightarrow> int \<Rightarrow> int \<Rightarrow> int \<Rightarrow> int \<Rightarrow> int" where
  "map_long x in_min in_max out_min out_max =
     (x - in_min) * (out_max - out_min) sdiv (in_max - in_min) + out_min"

definition constrain :: "int \<Rightarrow> int \<Rightarrow> int \<Rightarrow> int" where
  "constrain amt low high = (if amt < low then low else if amt > high then high else amt)"

text \<open>\<open>readBattery\<close>, with the value returned by \<open>analogRead(BATT_PIN)\<close> as parameter.\<close>

definition readBattery :: "int \<Rightarrow> byte" where
  "readBattery sensorValue =
     (let batteryPercent = map_long sensorValue 600 850 0 100
      in word_of_int (constrain batteryPercent 0 100))"

section \<open>SPI interrupt service routine (lines 96-113)\<close>

text \<open>Register bits of the ATmega328P (avr-libc headers, not part of the repository).\<close>

definition BV :: "nat \<Rightarrow> byte" where "BV b = push_bit b 1"
definition SPIF :: nat where "SPIF = 7"
definition SPE :: nat where "SPE = 6"
definition SPIE :: nat where "SPIE = 7"

text \<open>
  \<open>while (!(SPSR & _BV(SPIF)));\<close> polls the SPI status register until the hardware sets the
  transfer-complete flag. The successive values that the register shows are a parameter; the
  loop consumes them up to and including the first one with the flag set. \<open>None\<close>: the flag
  never shows, the loop spins forever.
\<close>

fun wait_SPIF :: "byte list \<Rightarrow> byte list option" where
  "wait_SPIF [] = None"
| "wait_SPIF (spsr # rest) = (if spsr AND BV SPIF \<noteq> 0 then Some rest else wait_SPIF rest)"

text \<open>
  The handler, given the byte read from \<open>SPDR\<close> and the values \<open>SPSR\<close> will show. It returns
  the bytes it wrote to \<open>SPDR\<close>, in order, and the state at its return, \<open>None\<close> when it never
  returns. The right shift of the (promoted, signed) \<open>distance\<close> is arithmetic.
\<close>

definition SPI_STC_vect :: "byte \<Rightarrow> byte list \<Rightarrow> firmware \<Rightarrow> byte list \<times> firmware option" where
  "SPI_STC_vect receivedByte spsr s =
     (if receivedByte = CMD_GET_SENSOR_DATA then
        (let b1 = ucast (signed_drop_bit 8 (distance (sensorData s)) AND 0xFF) in
         case wait_SPIF spsr of
           None \<Rightarrow> ([b1], None)
         | Some spsr1 \<Rightarrow>
            (let b2 = ucast (distance (sensorData s) AND 0xFF) in
             case wait_SPIF spsr1 of
               None \<Rightarrow> ([b1, b2], None)
             | Some spsr2 \<Rightarrow> ([b1, b2, battery_level (sensorData s)], Some s)))
      else ([0xFF], Some (s\<lparr>command := receivedByte\<rparr>)))"

section \<open>setup and loop (lines 54-92)\<close>

text \<open>The state at reset: \<open>command\<close> is initialised to 0, \<open>sensorData\<close> has static storage
  and is zero; the pins are whatever the board has.\<close>

definition power_on :: "hw \<Rightarrow> firmware" where
  "power_on h = \<lparr>command = 0, sensorData = \<lparr>distance = 0, battery_level = 0\<rparr>, io = h\<rparr>"

text \<open>\<open>setup\<close> (the name is an Isabelle keyword, hence the suffix).\<close>

definition setup_fw :: "firmware \<Rightarrow> firmware" where
  "setup_fw s =
     (let h1 = pinMode BATT_PIN INPUT (pinMode ECHO_PIN INPUT (pinMode TRIG_PIN OUTPUT
                (pinMode MOTOR_IN4 OUTPUT (pinMode MOTOR_IN3 OUTPUT (pinMode MOTOR_ENB OUTPUT
                (pinMode MOTOR_IN2 OUTPUT (pinMode MOTOR_IN1 OUTPUT (pinMode MOTOR_ENA OUTPUT
                (io s)))))))));
          h2 = stopMotors h1;
          h3 = pinMode MISO OUTPUT h2;
          h4 = h3\<lparr>SPCR := SPCR h3 OR BV SPE\<rparr>;
          h5 = h4\<lparr>SPCR := SPCR h4 OR BV SPIE\<rparr>;
          s1 = s\<lparr>io := h5\<rparr>;
          s2 = s1\<lparr>sensorData := (sensorData s1)\<lparr>distance := 0\<rparr>\<rparr>;
          s3 = s2\<lparr>sensorData := (sensorData s2)\<lparr>battery_level := 0\<rparr>\<rparr>
      in s3)"

text \<open>The four statements of \<open>loop\<close> that change the state; \<open>delay(100)\<close> changes nothing.\<close>

definition loop_distance :: "int \<Rightarrow> firmware \<Rightarrow> firmware" where
  "loop_distance duration s =
     (let (d, h) = readUltrasonic duration (io s)
      in s\<lparr>sensorData := (sensorData s)\<lparr>distance := d\<rparr>, io := h\<rparr>)"

definition loop_battery :: "int \<Rightarrow> firmware \<Rightarrow> firmware" where
  "loop_battery sensorValue s =
     s\<lparr>sensorData := (sensorData s)\<lparr>battery_level := readBattery sensorValue\<rparr>\<rparr>"

definition loop_execute :: "firmware \<Rightarrow> firmware" where
  "loop_execute s = s\<lparr>io := executeMotorCommand (command s) (io s)\<rparr>"

definition loop_reset :: "firmware \<Rightarrow> firmware" where
  "loop_reset s = s\<lparr>command := 0\<rparr>"

text \<open>One uninterrupted pass of \<open>loop\<close>, given what \<open>pulseIn\<close> and \<open>analogRead\<close> return.\<close>

definition loop :: "int \<Rightarrow> int \<Rightarrow> firmware \<Rightarrow> firmware" where
  "loop duration sensorValue s =
     loop_reset (loop_execute (loop_battery sensorValue (loop_distance duration s)))"

section \<open>Reading the outputs and the wire format\<close>

text \<open>
  The direction of one side of the L298N driver, read from its two direction lines as the
  comments of \<open>turnLeft\<close> and \<open>turnRight\<close> name them: first line high and second low is
  forward, the reverse is reverse, both low is neutral.
\<close>

datatype direction = Forward | Reverse | Neutral | Brake

definition dir_of :: "bool \<Rightarrow> bool \<Rightarrow> direction" where
  "dir_of a b = (if a then (if b then Brake else Forward) else (if b then Reverse else Neutral))"

definition left_direction :: "hw \<Rightarrow> direction" where
  "left_direction h = dir_of (level h MOTOR_IN1) (level h MOTOR_IN2)"

definition right_direction :: "hw \<Rightarrow> direction" where
  "right_direction h = dir_of (level h MOTOR_IN3) (level h MOTOR_IN4)"

definition left_duty :: "hw \<Rightarrow> int" where
  "left_duty h = duty h MOTOR_ENA"

definition right_duty :: "hw \<Rightarrow> int" where
  "right_duty h = duty h MOTOR_ENB"


text \<open>The controller's reading of the first two telemetry bytes: a big-endian 16-bit value.\<close>

definition be16 :: "byte \<Rightarrow> byte \<Rightarrow> short" where
  "be16 hi lo = push_bit 8 (ucast hi) OR ucast lo"

text \<open>A board with every line low, used for concrete runs.\<close>

definition hw0 :: hw where
  "hw0 = \<lparr>level = (\<lambda>p. False), duty = (\<lambda>p. 0), pmode = (\<lambda>p. INPUT), SPCR = 0\<rparr>"

text \<open>A state whose snapshot holds distance -123 (0xFF85) and battery level 87.\<close>

definition st1 :: firmware where
  "st1 = \<lparr>command = 0, sensorData = \<lparr>distance = 0xFF85, battery_level = 87\<rparr>, io = hw0\<rparr>"

section \<open>The poll loop and the bus handler, interleaved\<close>

text \<open>
  The interrupt handler runs to completion and can come between any two statements of
  \<open>loop\<close>. A run is a list of events: \<open>BUS b spsr\<close>, an SPI transfer completed and the
  handler runs with received byte \<open>b\<close> (and \<open>spsr\<close>, the values the status register will
  show it); \<open>STEP v\<close>, the main program performs its next statement, \<open>v\<close> being what the
  hardware returns to that statement (\<open>pulseIn\<close> at the first, \<open>analogRead\<close> at the second,
  unused by the others). An interrupt inside \<open>executeMotorCommand\<close>, after its argument has
  been read, acts on \<open>command\<close> like one between that statement and the next. Runs start
  after \<open>setup\<close>. A handler that never returns stops the whole program: \<open>None\<close>.
\<close>

datatype loop_pc = AT_DISTANCE | AT_BATTERY | AT_EXECUTE | AT_RESET | AT_DELAY

record sys =
  fw :: firmware
  pc :: loop_pc

datatype event = BUS byte "byte list" | STEP int

definition loop_step :: "int \<Rightarrow> sys \<Rightarrow> sys" where
  "loop_step v s =
     (case pc s of
        AT_DISTANCE \<Rightarrow> s\<lparr>fw := loop_distance v (fw s), pc := AT_BATTERY\<rparr>
      | AT_BATTERY \<Rightarrow> s\<lparr>fw := loop_battery v (fw s), pc := AT_EXECUTE\<rparr>
      | AT_EXECUTE \<Rightarrow> s\<lparr>fw := loop_execute (fw s), pc := AT_RESET\<rparr>
      | AT_RESET \<Rightarrow> s\<lparr>fw := loop_reset (fw s), pc := AT_DELAY\<rparr>
      | AT_DELAY \<Rightarrow> s\<lparr>pc := AT_DISTANCE\<rparr>)"

definition sstep :: "event \<Rightarrow> sys \<Rightarrow> sys option" where
  "sstep e s =
     (case e of
        BUS b spsr \<Rightarrow>
          (case snd (SPI_STC_vect b spsr (fw s)) of
             None \<Rightarrow> None
           | Some f \<Rightarrow> Some (s\<lparr>fw := f\<rparr>))
      | STEP v \<Rightarrow> Some (loop_step v s))"

fun run :: "event list \<Rightarrow> sys \<Rightarrow> sys option" where
  "run [] s = Some s"
| "run (e # es) s = (case sstep e s of None \<Rightarrow> None | Some s' \<Rightarrow> run es s')"

definition boot :: "hw \<Rightarrow> sys" where
  "boot h = \<lparr>fw = setup_fw (power_on h), pc = AT_DISTANCE\<rparr>"

text \<open>The command bytes (everything but the telemetry request) that a run received, in order.\<close>

fun cmd_bytes :: "event list \<Rightarrow> byte list" where
  "cmd_bytes [] = []"
| "cmd_bytes (BUS b spsr # es) = (if b = CMD_GET_SENSOR_DATA then cmd_bytes es else b # cmd_bytes es)"
| "cmd_bytes (STEP v # es) = cmd_bytes es"

subsection \<open>The motor outputs along a run\<close>

text \<open>The profile that the motor outputs show: direction and duty of the left side, then
  of the right side.\<close>

definition outputs :: "hw \<Rightarrow> direction \<times> int \<times> direction \<times> int" where
  "outputs h = (left_direction h, left_duty h, right_direction h, right_duty h)"

text \<open>The profile after each event of a run, in order. The list ends where a handler never
  returns.\<close>

fun run_outputs :: "event list \<Rightarrow> sys \<Rightarrow> (direction \<times> int \<times> direction \<times> int) list" where
  "run_outputs [] s = []"
| "run_outputs (e # es) s =
     (case sstep e s of
        None \<Rightarrow> []
      | Some s' \<Rightarrow> outputs (io (fw s')) # run_outputs es s')"

subsection \<open>Concrete runs\<close>

text \<open>Pass 0 up to its delay, then FORWARD arrives.\<close>

definition tr_latch :: "event list" where
  "tr_latch = [STEP 1000, STEP 725, STEP 0, STEP 0, BUS CMD_FORWARD []]"

text \<open>TURN_LEFT arrives in the same delay; then the rest of pass 0, pass 1, and pass 2 up to
  its execute statement.\<close>

definition tr_overwrite :: "event list" where
  "tr_overwrite = tr_latch @ [BUS CMD_TURN_LEFT [], STEP 0,
     STEP 1000, STEP 725, STEP 0, STEP 0, STEP 0,
     STEP 1000, STEP 725, STEP 0]"

text \<open>One pass of \<open>loop\<close> without an interrupt.\<close>

definition one_pass :: "event list" where
  "one_pass = [STEP 1000, STEP 725, STEP 0, STEP 0, STEP 0]"

text \<open>Pass 0 up to and including \<open>executeMotorCommand(command)\<close> (line 86); then FORWARD
  arrives, before \<open>command = 0\<close> (line 89).\<close>

definition tr_race_latched :: "event list" where
  "tr_race_latched = [STEP 1000, STEP 725, STEP 0, BUS CMD_FORWARD []]"

text \<open>Then the reset and the delay of pass 0, and passes 1 and 2; no other byte arrives.\<close>

definition tr_race :: "event list" where
  "tr_race = tr_race_latched @ [STEP 0, STEP 0] @ one_pass @ one_pass"

text \<open>FORWARD arrives in the delay of pass 0; pass 1 up to its execute statement.\<close>

definition tr_pending :: "event list" where
  "tr_pending = tr_latch @ [STEP 0, STEP 1000, STEP 725]"

text \<open>The same, with the execute statement of pass 1.\<close>

definition tr_fwd :: "event list" where
  "tr_fwd = tr_pending @ [STEP 0]"

section \<open>Basic facts\<close>

lemmas pin_defs = MOTOR_ENA_def MOTOR_IN1_def MOTOR_IN2_def MOTOR_ENB_def MOTOR_IN3_def
  MOTOR_IN4_def TRIG_PIN_def ECHO_PIN_def A0_def BATT_PIN_def MISO_def

lemmas cmd_defs = CMD_STOP_def CMD_FORWARD_def CMD_REVERSE_def CMD_TURN_LEFT_def
  CMD_TURN_RIGHT_def CMD_GET_SENSOR_DATA_def

lemmas io_defs = pinMode_def digitalWrite_def analogWrite_def LOW_def HIGH_def

lemmas motor_defs = goForward_def goReverse_def turnLeft_def turnRight_def stopMotors_def

lemmas out_defs = dir_of_def left_direction_def right_direction_def left_duty_def right_duty_def

subsection \<open>Bytes of a 16-bit value\<close>

lemma ff_mask: "(0xFF :: short) = mask 8"
  by (simp add: mask_eq_exp_minus_1)

lemma hi_byte: "(ucast (signed_drop_bit 8 d AND 0xFF) :: byte) = ucast (drop_bit 8 (d::short))"
  unfolding ff_mask
  by (rule bit_word_eqI) (auto simp add: bit_simps)

lemma hi_byte_unmasked: "(ucast (signed_drop_bit 8 d) :: byte) = ucast (drop_bit 8 (d::short))"
  by (rule bit_word_eqI) (auto simp add: bit_simps)

lemma lo_byte: "(ucast (d AND 0xFF) :: byte) = ucast (d::short)"
  unfolding ff_mask
  by (rule bit_word_eqI) (auto simp add: bit_simps)

lemma be16_hi_lo: "be16 (ucast (drop_bit 8 d)) (ucast d) = (d :: short)"
  unfolding be16_def
  by (rule bit_word_eqI) (auto simp add: bit_simps)

subsection \<open>The motor profiles\<close>

lemma exec_simps:
  "executeMotorCommand CMD_FORWARD h = goForward h"
  "executeMotorCommand CMD_REVERSE h = goReverse h"
  "executeMotorCommand CMD_TURN_LEFT h = turnLeft h"
  "executeMotorCommand CMD_TURN_RIGHT h = turnRight h"
  "executeMotorCommand CMD_STOP h = stopMotors h"
  by (simp_all add: executeMotorCommand_def cmd_defs)

lemma profiles:
  "left_direction (goForward h) = Forward" "right_direction (goForward h) = Forward"
  "left_duty (goForward h) = 200" "right_duty (goForward h) = 200"
  "left_direction (goReverse h) = Reverse" "right_direction (goReverse h) = Reverse"
  "left_duty (goReverse h) = 150" "right_duty (goReverse h) = 150"
  "left_direction (turnLeft h) = Reverse" "right_direction (turnLeft h) = Forward"
  "left_duty (turnLeft h) = 180" "right_duty (turnLeft h) = 180"
  "left_direction (turnRight h) = Forward" "right_direction (turnRight h) = Reverse"
  "left_duty (turnRight h) = 180" "right_duty (turnRight h) = 180"
  "left_direction (stopMotors h) = Neutral" "right_direction (stopMotors h) = Neutral"
  "left_duty (stopMotors h) = 0" "right_duty (stopMotors h) = 0"
  by (simp_all add: motor_defs io_defs pin_defs out_defs)

lemma stop_levels:
  "level (stopMotors h) MOTOR_IN1 = LOW" "level (stopMotors h) MOTOR_IN2 = LOW"
  "level (stopMotors h) MOTOR_IN3 = LOW" "level (stopMotors h) MOTOR_IN4 = LOW"
  "duty (stopMotors h) MOTOR_ENA = 0" "duty (stopMotors h) MOTOR_ENB = 0"
  by (simp_all add: motor_defs io_defs pin_defs)

text \<open>A code without a case leaves the outputs as they are.\<close>

lemma unknown_command_noop: "c \<notin> valid_cmds \<Longrightarrow> executeMotorCommand c h = h"
  by (simp add: executeMotorCommand_def valid_cmds_def)

subsection \<open>The battery mapping\<close>

text \<open>For every 16-bit \<open>sensorValue\<close> the product in \<open>map\<close> fits the 32-bit \<open>long\<close>, so the
  unbounded integers of \<open>map_long\<close> compute what the C arithmetic computes.\<close>

lemma map_long_fits:
  assumes "- 32768 \<le> x" and "x \<le> 32767"
  shows "- (2 ^ 31) \<le> (x - 600) * (100 - 0)" and "(x - 600) * (100 - 0) < (2::int) ^ 31"
  using assms by simp_all

lemma readBattery_uint: "uint (readBattery x) = constrain ((x - 600) * 100 sdiv 250) 0 100"
proof -
  have "0 \<le> constrain ((x - 600) * 100 sdiv 250) 0 100"
    and "constrain ((x - 600) * 100 sdiv 250) 0 100 \<le> 100"
    by (simp_all add: constrain_def)
  then have "uint (word_of_int (constrain ((x - 600) * 100 sdiv 250) 0 100) :: byte)
        = constrain ((x - 600) * 100 sdiv 250) 0 100"
    by (simp add: uint_word_of_int take_bit_int_eq_self)
  then show ?thesis by (simp add: readBattery_def map_long_def)
qed

lemma readBattery_linear:
  assumes "600 \<le> x" and "x \<le> 850"
  shows "uint (readBattery x) = (x - 600) * 100 div 250"
proof -
  from assms have nn: "0 \<le> (x - 600) * 100" by simp
  then have sd: "(x - 600) * 100 sdiv 250 = (x - 600) * 100 div 250"
    by (cases "(x - 600) * 100 = 0") (simp_all add: signed_divide_int_def sgn_if)
  from assms have "0 \<le> (x - 600) * 100 div 250" and "(x - 600) * 100 div 250 \<le> 100"
    by simp_all
  then show ?thesis unfolding readBattery_uint sd by (simp add: constrain_def)
qed

section \<open>The telemetry reply\<close>

lemma telemetry_staged:
  assumes "wait_SPIF spsr = Some spsr1" and "wait_SPIF spsr1 = Some spsr2"
  shows "SPI_STC_vect CMD_GET_SENSOR_DATA spsr s =
           ([ucast (drop_bit 8 (distance (sensorData s))), ucast (distance (sensorData s)),
             battery_level (sensorData s)], Some s)"
  using assms by (simp add: SPI_STC_vect_def hi_byte hi_byte_unmasked lo_byte)

text \<open>
  C2. For every state of the telemetry snapshot, the handler invoked with the byte 0x10
  writes exactly three bytes, in this order: the high-order byte of \<open>distance\<close>, its
  low-order byte, and \<open>battery_level\<close>; the first two, read as a big-endian signed 16-bit
  value, give the snapshot's distance, the third is its battery level. (The handler waits
  for the transfer-complete flag between the bytes: the controller clocks the exchanges.)
\<close>

theorem telemetry_request_reply:
  assumes "wait_SPIF spsr = Some spsr1" and "wait_SPIF spsr1 = Some spsr2"
  shows "\<exists>hi lo bat.
           SPI_STC_vect CMD_GET_SENSOR_DATA spsr s = ([hi, lo, bat], Some s)
         \<and> hi = ucast (drop_bit 8 (distance (sensorData s)))
         \<and> lo = ucast (distance (sensorData s))
         \<and> be16 hi lo = distance (sensorData s)
         \<and> sint (be16 hi lo) = sint (distance (sensorData s))
         \<and> bat = battery_level (sensorData s)"
  using telemetry_staged [OF assms] by (simp add: be16_hi_lo)

theorem telemetry_request_reply_witness:
  "wait_SPIF [0x80, 0x00, 0x80] = Some [0x00, 0x80] \<and> wait_SPIF [0x00, 0x80] = Some []
   \<and> SPI_STC_vect CMD_GET_SENSOR_DATA [0x80, 0x00, 0x80] st1 = ([0xFF, 0x85, 87], Some st1)
   \<and> be16 0xFF 0x85 = distance (sensorData st1)
   \<and> sint (be16 0xFF 0x85) = - 123"
proof -
  have w1: "wait_SPIF [0x80, 0x00, 0x80] = Some [0x00, 0x80]"
    by (simp add: BV_def SPIF_def)
  have w2: "wait_SPIF [0x00, 0x80] = Some []"
    by (simp add: BV_def SPIF_def)
  from telemetry_request_reply [OF w1 w2, of st1] obtain hi lo bat where
    r: "SPI_STC_vect CMD_GET_SENSOR_DATA [0x80, 0x00, 0x80] st1 = ([hi, lo, bat], Some st1)"
    and hi: "hi = ucast (drop_bit 8 (distance (sensorData st1)))"
    and lo: "lo = ucast (distance (sensorData st1))"
    and be: "be16 hi lo = distance (sensorData st1)"
    and si: "sint (be16 hi lo) = sint (distance (sensorData st1))"
    and bat: "bat = battery_level (sensorData st1)"
    by blast
  have hi': "hi = 0xFF" unfolding hi by (simp add: st1_def)
  have lo': "lo = 0x85" unfolding lo by (simp add: st1_def)
  have bat': "bat = 87" unfolding bat by (simp add: st1_def)
  have "sint (distance (sensorData st1)) = - 123" by (simp add: st1_def)
  with r be si w1 w2 show ?thesis unfolding hi' lo' bat' by simp
qed

lemma setup_sensorData: "sensorData (setup_fw s) = \<lparr>distance = 0, battery_level = 0\<rparr>"
  by (simp add: setup_fw_def Let_def)

text \<open>
  C9. A telemetry request that arrives in the state established by \<open>setup\<close>, before the
  first pass of \<open>loop\<close>, is answered with exactly 0x00, 0x00, 0x00: \<open>setup\<close> sets
  \<open>distance\<close> and \<open>battery_level\<close> to 0, whatever state it starts from.
\<close>

theorem telemetry_after_setup:
  assumes "wait_SPIF spsr = Some spsr1" and "wait_SPIF spsr1 = Some spsr2"
  shows "SPI_STC_vect CMD_GET_SENSOR_DATA spsr (setup_fw s)
           = ([0x00, 0x00, 0x00], Some (setup_fw s))"
  using assms by (simp add: SPI_STC_vect_def setup_sensorData)

theorem telemetry_after_setup_witness:
  "wait_SPIF [0x80, 0x80] = Some [0x80] \<and> wait_SPIF [0x80] = Some []
   \<and> SPI_STC_vect CMD_GET_SENSOR_DATA [0x80, 0x80] (setup_fw (power_on hw0))
       = ([0x00, 0x00, 0x00], Some (setup_fw (power_on hw0)))"
proof -
  have w1: "wait_SPIF [0x80, 0x80] = Some [0x80]"
    by (simp add: BV_def SPIF_def)
  have w2: "wait_SPIF [0x80] = Some []"
    by (simp add: BV_def SPIF_def)
  from telemetry_after_setup [OF w1 w2, of "power_on hw0"] w1 w2 show ?thesis by simp
qed

section \<open>The command executor\<close>

text \<open>
  C4, as the claim has it, fails: the turn duty is not lower than the duty of REVERSE
  (180 against 150).
\<close>

theorem turn_duty_not_below_reverse:
  "\<not> left_duty (executeMotorCommand CMD_TURN_LEFT hw0)
       < left_duty (executeMotorCommand CMD_REVERSE hw0)"
  by (simp add: exec_simps profiles)

text \<open>
  C4, amended. TURN_LEFT and TURN_RIGHT drive the two sides in opposite directions with the
  same duty, 180, on both sides; that duty is lower than the duty of FORWARD (200) and
  higher than the duty of REVERSE (150); FORWARD and REVERSE use different duties.
\<close>

theorem turn_profiles:
  "left_direction (executeMotorCommand CMD_TURN_LEFT h) = Reverse
   \<and> right_direction (executeMotorCommand CMD_TURN_LEFT h) = Forward
   \<and> left_direction (executeMotorCommand CMD_TURN_RIGHT h) = Forward
   \<and> right_direction (executeMotorCommand CMD_TURN_RIGHT h) = Reverse
   \<and> left_duty (executeMotorCommand CMD_TURN_LEFT h) = 180
   \<and> right_duty (executeMotorCommand CMD_TURN_LEFT h) = 180
   \<and> left_duty (executeMotorCommand CMD_TURN_RIGHT h) = 180
   \<and> right_duty (executeMotorCommand CMD_TURN_RIGHT h) = 180
   \<and> left_duty (executeMotorCommand CMD_FORWARD h) = 200
   \<and> right_duty (executeMotorCommand CMD_FORWARD h) = 200
   \<and> left_duty (executeMotorCommand CMD_REVERSE h) = 150
   \<and> right_duty (executeMotorCommand CMD_REVERSE h) = 150
   \<and> left_duty (executeMotorCommand CMD_TURN_LEFT h) < left_duty (executeMotorCommand CMD_FORWARD h)
   \<and> left_duty (executeMotorCommand CMD_REVERSE h) < left_duty (executeMotorCommand CMD_TURN_LEFT h)
   \<and> left_duty (executeMotorCommand CMD_FORWARD h) \<noteq> left_duty (executeMotorCommand CMD_REVERSE h)"
  by (simp add: exec_simps profiles)

text \<open>
  C5. For every valid command code \<open>c\<close> and every prior state of the outputs, executing
  \<open>c\<close> and then STOP leaves both duty cycles at 0 and all four direction lines low (both
  sides neutral).
\<close>

theorem stop_after_command:
  assumes "c \<in> valid_cmds"
  shows "duty (executeMotorCommand CMD_STOP (executeMotorCommand c h)) MOTOR_ENA = 0
       \<and> duty (executeMotorCommand CMD_STOP (executeMotorCommand c h)) MOTOR_ENB = 0
       \<and> level (executeMotorCommand CMD_STOP (executeMotorCommand c h)) MOTOR_IN1 = LOW
       \<and> level (executeMotorCommand CMD_STOP (executeMotorCommand c h)) MOTOR_IN2 = LOW
       \<and> level (executeMotorCommand CMD_STOP (executeMotorCommand c h)) MOTOR_IN3 = LOW
       \<and> level (executeMotorCommand CMD_STOP (executeMotorCommand c h)) MOTOR_IN4 = LOW
       \<and> left_direction (executeMotorCommand CMD_STOP (executeMotorCommand c h)) = Neutral
       \<and> right_direction (executeMotorCommand CMD_STOP (executeMotorCommand c h)) = Neutral"
  by (simp add: exec_simps stop_levels profiles)

theorem stop_after_command_witness:
  "CMD_FORWARD \<in> valid_cmds
   \<and> duty (executeMotorCommand CMD_FORWARD hw0) MOTOR_ENA = 200
   \<and> duty (executeMotorCommand CMD_STOP (executeMotorCommand CMD_FORWARD hw0)) MOTOR_ENA = 0
   \<and> duty (executeMotorCommand CMD_STOP (executeMotorCommand CMD_FORWARD hw0)) MOTOR_ENB = 0
   \<and> left_direction (executeMotorCommand CMD_STOP (executeMotorCommand CMD_FORWARD hw0)) = Neutral
   \<and> right_direction (executeMotorCommand CMD_STOP (executeMotorCommand CMD_FORWARD hw0)) = Neutral"
proof -
  have v: "CMD_FORWARD \<in> valid_cmds" by (simp add: valid_cmds_def)
  have d: "duty (executeMotorCommand CMD_FORWARD hw0) MOTOR_ENA = 200"
    by (simp add: exec_simps motor_defs io_defs pin_defs)
  from stop_after_command [OF v, of hw0] v d show ?thesis by simp
qed

text \<open>
  C6 at the code 0, the value that \<open>loop\<close> resets \<open>command\<close> to: 0 is \<open>CMD_STOP\<close>, so
  \<open>executeMotorCommand\<close> runs \<open>stopMotors\<close>. After \<open>goForward\<close> (duty 200 on both sides,
  both sides forward) it leaves duty 0 and both sides neutral: the outputs are not as
  previously set.
\<close>

theorem zero_command_stops:
  "(0::byte) = CMD_STOP
   \<and> executeMotorCommand 0 (goForward hw0) = stopMotors (goForward hw0)
   \<and> left_duty (goForward hw0) = 200 \<and> right_duty (goForward hw0) = 200
   \<and> left_direction (goForward hw0) = Forward \<and> right_direction (goForward hw0) = Forward
   \<and> left_duty (executeMotorCommand 0 (goForward hw0)) = 0
   \<and> right_duty (executeMotorCommand 0 (goForward hw0)) = 0
   \<and> left_direction (executeMotorCommand 0 (goForward hw0)) = Neutral
   \<and> right_direction (executeMotorCommand 0 (goForward hw0)) = Neutral
   \<and> executeMotorCommand 0 (goForward hw0) \<noteq> goForward hw0"
proof -
  have z: "(0::byte) = CMD_STOP" by (simp add: CMD_STOP_def)
  have e: "executeMotorCommand 0 (goForward hw0) = stopMotors (goForward hw0)"
    unfolding z by (simp add: exec_simps)
  have "left_duty (stopMotors (goForward hw0)) \<noteq> left_duty (goForward hw0)"
    by (simp add: profiles)
  then have n: "stopMotors (goForward hw0) \<noteq> goForward hw0" by auto
  from z e n show ?thesis by (simp add: profiles)
qed

section \<open>The sensor sampler\<close>

text \<open>
  C7. With the calibration bounds 600 (empty) and 850 (full), \<open>readBattery\<close> maps the raw
  reading linearly onto 0 to 100 and clamps the result to that range: 850 gives 100, 600
  gives 0, 725 gives a value from 48 to 50 (it is 50).
\<close>

theorem battery_mapping:
  "readBattery 850 = 100 \<and> readBattery 600 = 0
   \<and> 48 \<le> uint (readBattery 725) \<and> uint (readBattery 725) \<le> 50
   \<and> uint (readBattery x) = constrain ((x - 600) * 100 sdiv 250) 0 100
   \<and> 0 \<le> uint (readBattery x) \<and> uint (readBattery x) \<le> 100
   \<and> (600 \<le> x \<and> x \<le> 850 \<longrightarrow> uint (readBattery x) = (x - 600) * 100 div 250)
   \<and> (x \<le> 600 \<longrightarrow> readBattery x = 0)
   \<and> (850 \<le> x \<longrightarrow> readBattery x = 100)"
proof -
  have full: "readBattery 850 = 100" and empty: "readBattery 600 = 0"
    and mid: "readBattery 725 = 50"
    by (simp_all add: readBattery_def map_long_def constrain_def signed_divide_int_def)
  have up: "uint (readBattery x) \<le> 100"
    unfolding readBattery_uint by (simp add: constrain_def)
  have m1: "48 \<le> uint (readBattery 725)" and m2: "uint (readBattery 725) \<le> 50"
    unfolding mid by simp_all
  have lo: "0 \<le> uint (readBattery x)" by simp
  have below: "readBattery x = 0" if "x \<le> 600"
  proof -
    have "0 \<le> \<bar>(x - 600) * 100\<bar> div 250"
      by (rule pos_imp_zdiv_nonneg_iff [THEN iffD2]) simp_all
    with that have "(x - 600) * 100 sdiv 250 \<le> 0"
      by (simp add: signed_divide_int_def sgn_if)
    then have "uint (readBattery x) = 0"
      unfolding readBattery_uint by (simp add: constrain_def)
    then show ?thesis by (simp add: word_uint_eq_iff)
  qed
  have above: "readBattery x = 100" if "850 \<le> x"
  proof -
    from that have "0 \<le> (x - 600) * 100" by simp
    then have "(x - 600) * 100 sdiv 250 = (x - 600) * 100 div 250"
      by (cases "(x - 600) * 100 = 0") (simp_all add: signed_divide_int_def sgn_if)
    moreover from that have "100 \<le> (x - 600) * 100 div 250" by simp
    ultimately have "uint (readBattery x) = 100"
      unfolding readBattery_uint by (simp add: constrain_def)
    then show ?thesis by (simp add: word_uint_eq_iff)
  qed
  from full empty m1 m2 readBattery_uint [of x] lo up readBattery_linear [of x] below above
  show ?thesis by blast
qed

theorem battery_mapping_witness:
  "uint (readBattery 700) = 40 \<and> readBattery 0 = 0 \<and> readBattery 1023 = 100"
  using battery_mapping [of 700] battery_mapping [of 0] battery_mapping [of 1023] by simp

text \<open>
  C8. When no echo arrives within the timeout (\<open>pulseIn\<close> returns 0), \<open>readUltrasonic\<close>
  returns the distance 0; nothing is raised, and the pass of \<open>loop\<close> goes on as usual:
  it stores the distance 0, samples the battery, executes the latched command and resets it.
\<close>

theorem no_echo_distance_zero:
  "fst (readUltrasonic 0 h) = 0
   \<and> distance (sensorData (loop 0 v s)) = 0
   \<and> battery_level (sensorData (loop 0 v s)) = readBattery v
   \<and> io (loop 0 v s) = executeMotorCommand (command s) (snd (readUltrasonic 0 (io s)))
   \<and> command (loop 0 v s) = 0"
  by (simp add: readUltrasonic_def c_trunc_def loop_def loop_distance_def loop_battery_def
      loop_execute_def loop_reset_def Let_def)

section \<open>Runs\<close>

lemma run_append:
  "run (xs @ ys) s = (case run xs s of None \<Rightarrow> None | Some s' \<Rightarrow> run ys s')"
  by (induction xs arbitrary: s) (simp_all split: option.splits)

lemma cmd_bytes_append: "cmd_bytes (xs @ ys) = cmd_bytes xs @ cmd_bytes ys"
  by (induction xs rule: cmd_bytes.induct) simp_all

text \<open>A handler that returns has either answered a telemetry request, changing nothing, or
  latched the byte.\<close>

lemma isr_command:
  assumes "snd (SPI_STC_vect b spsr f) = Some f'"
  shows "f' = (if b = CMD_GET_SENSOR_DATA then f else f\<lparr>command := b\<rparr>)"
  using assms by (auto simp add: SPI_STC_vect_def Let_def split: option.splits if_splits)

lemma loop_step_command:
  "command (fw (loop_step v s)) = (if pc s = AT_RESET then 0 else command (fw s))"
  by (cases "pc s")
    (simp_all add: loop_step_def loop_distance_def loop_battery_def loop_execute_def
      loop_reset_def split: prod.splits)

lemma loop_step_pc:
  "pc (loop_step v s) =
     (case pc s of AT_DISTANCE \<Rightarrow> AT_BATTERY | AT_BATTERY \<Rightarrow> AT_EXECUTE
      | AT_EXECUTE \<Rightarrow> AT_RESET | AT_RESET \<Rightarrow> AT_DELAY | AT_DELAY \<Rightarrow> AT_DISTANCE)"
  by (cases "pc s") (simp_all add: loop_step_def)

lemma boot_pc: "pc (boot h) = AT_DISTANCE"
  by (simp add: boot_def)

lemma boot_command: "command (fw (boot h)) = 0"
  by (simp add: boot_def setup_fw_def power_on_def Let_def)

lemma sstep_STEP: "sstep (STEP v) s = Some (loop_step v s)"
  by (simp add: sstep_def)

lemma sstep_BUS_command:
  "b \<noteq> CMD_GET_SENSOR_DATA \<Longrightarrow> sstep (BUS b spsr) s = Some (s\<lparr>fw := (fw s)\<lparr>command := b\<rparr>\<rparr>)"
  by (simp add: sstep_def SPI_STC_vect_def)

text \<open>Five statements without an interrupt are one pass of \<open>loop\<close>.\<close>

lemma uninterrupted_pass:
  "run [STEP duration, STEP sensorValue, STEP x, STEP y, STEP z] \<lparr>fw = f, pc = AT_DISTANCE\<rparr>
     = Some \<lparr>fw = loop duration sensorValue f, pc = AT_DISTANCE\<rparr>"
  by (simp add: sstep_def loop_step_def loop_def)

section \<open>The command latch\<close>

lemma latch_step:
  assumes "command (fw s) \<noteq> CMD_GET_SENSOR_DATA"
    and "command (fw s) = 0 \<or> (cmd_bytes evs \<noteq> [] \<and> command (fw s) = last (cmd_bytes evs))"
    and "sstep e s = Some s'"
  shows "command (fw s') \<noteq> CMD_GET_SENSOR_DATA
       \<and> (command (fw s') = 0
          \<or> (cmd_bytes (evs @ [e]) \<noteq> [] \<and> command (fw s') = last (cmd_bytes (evs @ [e]))))"
proof (cases e)
  case (BUS b spsr)
  with assms(3) obtain f' where f': "snd (SPI_STC_vect b spsr (fw s)) = Some f'"
    and s': "s' = s\<lparr>fw := f'\<rparr>"
    by (auto simp add: sstep_def split: option.splits)
  from isr_command [OF f'] s' BUS assms(1,2) show ?thesis
    by (auto simp add: cmd_bytes_append)
next
  case (STEP v)
  with assms(3) have s': "s' = loop_step v s" by (simp add: sstep_def)
  from assms(1,2) STEP show ?thesis
    unfolding s' by (auto simp add: loop_step_command cmd_bytes_append cmd_defs)
qed

lemma latch_run:
  assumes "run evs (boot h) = Some s"
  shows "command (fw s) \<noteq> CMD_GET_SENSOR_DATA
       \<and> (command (fw s) = 0
          \<or> (cmd_bytes evs \<noteq> [] \<and> command (fw s) = last (cmd_bytes evs)))"
  using assms
proof (induction evs arbitrary: s rule: rev_induct)
  case Nil
  then show ?case by (auto simp add: boot_command cmd_defs)
next
  case (snoc e evs)
  from snoc.prems obtain s0 where r: "run evs (boot h) = Some s0" and st: "sstep e s0 = Some s"
    by (auto simp add: run_append split: option.splits)
  from snoc.IH [OF r] have "command (fw s0) \<noteq> CMD_GET_SENSOR_DATA"
    and "command (fw s0) = 0
          \<or> (cmd_bytes evs \<noteq> [] \<and> command (fw s0) = last (cmd_bytes evs))"
    by blast+
  from latch_step [OF this st] show ?case .
qed

text \<open>
  C3, as the claim has it, fails: the handler latches every byte other than 0x10, so after
  the byte 0x55 the latch holds 0x55, which is neither the no-op value 0 nor one of the five
  valid command codes.
\<close>

theorem latch_holds_unknown_code:
  "map_option (command \<circ> fw) (run [BUS 0x55 []] (boot hw0)) = Some 0x55
   \<and> (0x55 :: byte) \<noteq> 0 \<and> (0x55 :: byte) \<notin> valid_cmds"
  by (simp add: sstep_def SPI_STC_vect_def cmd_defs valid_cmds_def)

text \<open>
  C3, amended. After every sequence of handler invocations and statements of \<open>loop\<close>, the
  latch holds either 0 or the most recently received byte other than 0x10, whether that
  byte is a valid command code or not; it never holds 0x10.
\<close>

theorem latch_contents:
  assumes "run evs (boot h) = Some s"
  shows "command (fw s) \<noteq> CMD_GET_SENSOR_DATA
       \<and> (command (fw s) = 0
          \<or> (cmd_bytes evs \<noteq> [] \<and> command (fw s) = last (cmd_bytes evs)))"
  using latch_run [OF assms] .

theorem latch_contents_witness:
  "run [BUS CMD_FORWARD [], BUS 0x55 []] (boot hw0)
      = Some ((boot hw0)\<lparr>fw := (fw (boot hw0))\<lparr>command := 0x55\<rparr>\<rparr>)
   \<and> cmd_bytes [BUS CMD_FORWARD [], BUS 0x55 []] = [CMD_FORWARD, 0x55]
   \<and> command (fw ((boot hw0)\<lparr>fw := (fw (boot hw0))\<lparr>command := 0x55\<rparr>\<rparr>)) = 0x55"
proof -
  have r: "run [BUS CMD_FORWARD [], BUS 0x55 []] (boot hw0)
      = Some ((boot hw0)\<lparr>fw := (fw (boot hw0))\<lparr>command := 0x55\<rparr>\<rparr>)"
    by (simp add: sstep_def SPI_STC_vect_def cmd_defs)
  have c: "cmd_bytes [BUS CMD_FORWARD [], BUS 0x55 []] = [CMD_FORWARD, 0x55]"
    by (simp add: cmd_defs)
  from latch_contents [OF r] r c show ?thesis by simp
qed

section \<open>Equal duty on both sides\<close>

lemma exec_duties:
  assumes "left_duty h = right_duty h"
  shows "left_duty (executeMotorCommand c h) = right_duty (executeMotorCommand c h)"
  using assms by (simp add: executeMotorCommand_def profiles)

lemma exec_valid_duties:
  assumes "c \<in> valid_cmds"
  shows "left_duty (executeMotorCommand c h) = right_duty (executeMotorCommand c h)"
  using assms by (auto simp add: valid_cmds_def exec_simps profiles)

lemma readUltrasonic_duty: "duty (snd (readUltrasonic d h)) = duty h"
  by (simp add: readUltrasonic_def io_defs Let_def)

lemma loop_distance_io: "io (loop_distance v f) = snd (readUltrasonic v (io f))"
  by (simp add: loop_distance_def split: prod.splits)

lemma loop_step_duties:
  assumes "left_duty (io (fw s)) = right_duty (io (fw s))"
  shows "left_duty (io (fw (loop_step v s))) = right_duty (io (fw (loop_step v s)))"
proof (cases "pc s")
  case AT_DISTANCE
  with assms show ?thesis
    by (simp add: loop_step_def loop_distance_io readUltrasonic_duty left_duty_def
        right_duty_def)
next
  case AT_EXECUTE
  with exec_duties [OF assms] show ?thesis
    by (simp add: loop_step_def loop_execute_def)
qed (use assms in \<open>simp_all add: loop_step_def loop_battery_def loop_reset_def\<close>)

lemma sstep_duties:
  assumes "left_duty (io (fw s)) = right_duty (io (fw s))" and "sstep e s = Some s'"
  shows "left_duty (io (fw s')) = right_duty (io (fw s'))"
proof (cases e)
  case (BUS b spsr)
  with assms(2) obtain f' where f': "snd (SPI_STC_vect b spsr (fw s)) = Some f'"
    and s': "s' = s\<lparr>fw := f'\<rparr>"
    by (auto simp add: sstep_def split: option.splits)
  from isr_command [OF f'] s' assms(1) show ?thesis by auto
next
  case (STEP v)
  with assms(2) have "s' = loop_step v s" by (simp add: sstep_def)
  with loop_step_duties [OF assms(1)] show ?thesis by simp
qed

lemma boot_duties: "left_duty (io (fw (boot h))) = 0" "right_duty (io (fw (boot h))) = 0"
  by (simp_all add: boot_def setup_fw_def power_on_def Let_def motor_defs io_defs pin_defs
      out_defs)

lemma run_duties:
  assumes "left_duty (io (fw s)) = right_duty (io (fw s))" and "run evs s = Some s'"
  shows "left_duty (io (fw s')) = right_duty (io (fw s'))"
  using assms
proof (induction evs arbitrary: s)
  case Nil
  then show ?case by simp
next
  case (Cons e evs)
  from Cons.prems(2) obtain s1 where st: "sstep e s = Some s1" and r: "run evs s1 = Some s'"
    by (auto split: option.splits)
  from Cons.IH [OF sstep_duties [OF Cons.prems(1) st] r] show ?case .
qed

text \<open>
  C10. Every motor profile writes the same duty to the left and to the right side (FORWARD
  200/200, REVERSE 150/150, TURN_LEFT 180/180, TURN_RIGHT 180/180, STOP 0/0), so the two
  duty cycles are equal after executing any valid code, in every state that the program
  reaches after \<open>setup\<close>, and after executing any code at all in such a state.
\<close>

theorem duties_equal:
  "left_duty (executeMotorCommand CMD_FORWARD h) = 200
   \<and> right_duty (executeMotorCommand CMD_FORWARD h) = 200
   \<and> left_duty (executeMotorCommand CMD_REVERSE h) = 150
   \<and> right_duty (executeMotorCommand CMD_REVERSE h) = 150
   \<and> left_duty (executeMotorCommand CMD_TURN_LEFT h) = 180
   \<and> right_duty (executeMotorCommand CMD_TURN_LEFT h) = 180
   \<and> left_duty (executeMotorCommand CMD_TURN_RIGHT h) = 180
   \<and> right_duty (executeMotorCommand CMD_TURN_RIGHT h) = 180
   \<and> left_duty (executeMotorCommand CMD_STOP h) = 0
   \<and> right_duty (executeMotorCommand CMD_STOP h) = 0
   \<and> (c \<in> valid_cmds \<longrightarrow>
        left_duty (executeMotorCommand c h) = right_duty (executeMotorCommand c h))
   \<and> (run evs (boot h0) = Some s \<longrightarrow>
        left_duty (io (fw s)) = right_duty (io (fw s))
        \<and> left_duty (executeMotorCommand c (io (fw s)))
            = right_duty (executeMotorCommand c (io (fw s))))"
proof -
  have "left_duty (io (fw (boot h0))) = right_duty (io (fw (boot h0)))"
    by (simp add: boot_duties)
  from run_duties [OF this] exec_duties exec_valid_duties [of c h] show ?thesis
    by (simp add: exec_simps profiles)
qed

theorem duties_equal_witness:
  "CMD_REVERSE \<in> valid_cmds
   \<and> left_duty (executeMotorCommand CMD_REVERSE hw0) = 150
   \<and> right_duty (executeMotorCommand CMD_REVERSE hw0) = 150
   \<and> map_option (left_duty \<circ> io \<circ> fw) (run tr_fwd (boot hw0)) = Some 200
   \<and> map_option (right_duty \<circ> io \<circ> fw) (run tr_fwd (boot hw0)) = Some 200"
proof -
  have v: "CMD_REVERSE \<in> valid_cmds" by (simp add: valid_cmds_def)
  obtain s where r: "run tr_fwd (boot hw0) = Some s"
    by (simp add: tr_fwd_def tr_pending_def tr_latch_def sstep_STEP sstep_BUS_command cmd_defs)
  have l: "left_duty (io (fw s)) = 200"
    using r
    by (simp add: tr_fwd_def tr_pending_def tr_latch_def sstep_def SPI_STC_vect_def cmd_defs
        boot_def loop_step_def loop_distance_def loop_battery_def loop_execute_def
        loop_reset_def split: prod.splits)
      (auto simp add: executeMotorCommand_def cmd_defs profiles)
  from duties_equal [of hw0 CMD_REVERSE tr_fwd hw0 s] v r l show ?thesis by simp
qed

section \<open>Latched commands and their execution\<close>

lemma outputs_exec:
  "outputs (executeMotorCommand c h) =
     (if c = CMD_FORWARD then (Forward, 200, Forward, 200)
      else if c = CMD_REVERSE then (Reverse, 150, Reverse, 150)
      else if c = CMD_TURN_LEFT then (Reverse, 180, Forward, 180)
      else if c = CMD_TURN_RIGHT then (Forward, 180, Reverse, 180)
      else if c = CMD_STOP then (Neutral, 0, Neutral, 0)
      else outputs h)"
  by (simp add: executeMotorCommand_def outputs_def profiles)

lemma outputs_readUltrasonic: "outputs (snd (readUltrasonic d h)) = outputs h"
  by (simp add: readUltrasonic_def outputs_def out_defs io_defs pin_defs Let_def)

text \<open>Only the execute statement of \<open>loop\<close> changes the motor outputs.\<close>

lemma outputs_loop_step:
  "outputs (io (fw (loop_step v s))) =
     (if pc s = AT_EXECUTE then outputs (executeMotorCommand (command (fw s)) (io (fw s)))
      else outputs (io (fw s)))"
proof (cases "pc s")
  case AT_DISTANCE
  then show ?thesis
    by (simp add: loop_step_def loop_distance_io outputs_readUltrasonic)
qed (simp_all add: loop_step_def loop_battery_def loop_execute_def loop_reset_def)

lemma outputs_boot: "outputs (io (fw (boot h))) = (Neutral, 0, Neutral, 0)"
  by (simp add: boot_def setup_fw_def power_on_def Let_def outputs_def motor_defs io_defs
      pin_defs out_defs)

lemmas run_defs = sstep_STEP sstep_BUS_command cmd_defs
  loop_step_pc loop_step_command boot_pc boot_command
  outputs_loop_step outputs_exec outputs_boot

text \<open>
  Last write wins: FORWARD and then TURN_LEFT arrive in the delay of pass 0. Pass 1 executes
  TURN_LEFT, and the outputs never show the profile of FORWARD. (Pass 2 then executes the
  reset value 0, which is STOP.)
\<close>

lemma last_write_wins:
  "cmd_bytes tr_overwrite = [CMD_FORWARD, CMD_TURN_LEFT]
   \<and> run_outputs tr_overwrite (boot hw0)
       = [(Neutral, 0, Neutral, 0), (Neutral, 0, Neutral, 0), (Neutral, 0, Neutral, 0),
          (Neutral, 0, Neutral, 0), (Neutral, 0, Neutral, 0), (Neutral, 0, Neutral, 0),
          (Neutral, 0, Neutral, 0), (Neutral, 0, Neutral, 0), (Neutral, 0, Neutral, 0),
          (Reverse, 180, Forward, 180), (Reverse, 180, Forward, 180),
          (Reverse, 180, Forward, 180), (Reverse, 180, Forward, 180),
          (Reverse, 180, Forward, 180), (Neutral, 0, Neutral, 0)]"
  by (simp add: tr_overwrite_def tr_latch_def run_defs)

text \<open>
  C1 on the run \<open>tr_race\<close>. FORWARD is the only byte sent; it arrives in pass 0 after
  \<open>executeMotorCommand(command)\<close> (line 86) and before \<open>command = 0\<close> (line 89). The handler
  latches it, the reset statement clears it, and passes 0, 1 and 2 complete with the outputs
  stopped after every one of the 16 events: FORWARD is not executed in pass 0 or 1, nor
  later. The same byte arriving in the delay of pass 0 (\<open>tr_fwd\<close>) is executed in pass 1.
\<close>

theorem forward_lost_before_reset:
  "cmd_bytes tr_race = [CMD_FORWARD]
   \<and> map_option pc (run [STEP 1000, STEP 725, STEP 0] (boot hw0)) = Some AT_RESET
   \<and> map_option pc (run tr_race_latched (boot hw0)) = Some AT_RESET
   \<and> map_option (command \<circ> fw) (run tr_race_latched (boot hw0)) = Some CMD_FORWARD
   \<and> map_option (command \<circ> fw) (run (tr_race_latched @ [STEP 0]) (boot hw0)) = Some 0
   \<and> map_option pc (run (tr_race_latched @ [STEP 0, STEP 0]) (boot hw0)) = Some AT_DISTANCE
   \<and> map_option pc (run tr_race (boot hw0)) = Some AT_DISTANCE
   \<and> length (run_outputs tr_race (boot hw0)) = 16
   \<and> set (run_outputs tr_race (boot hw0)) = {(Neutral, 0, Neutral, 0)}
   \<and> outputs (executeMotorCommand CMD_FORWARD hw0) = (Forward, 200, Forward, 200)
   \<and> cmd_bytes tr_fwd = [CMD_FORWARD]
   \<and> last (run_outputs tr_fwd (boot hw0)) = (Forward, 200, Forward, 200)"
  by (simp add: tr_race_def tr_race_latched_def one_pass_def tr_fwd_def tr_pending_def
      tr_latch_def run_defs)

end
